theory Spec2Isabelle
  imports Complex_Main "HOL-Library.Sublist"
begin

section \<open>The persisted project index (projects-index store)\<close>

text \<open>
  The Electron main process keeps one list of project metas under the key \<open>metas\<close> of
  the store \<open>projects-index\<close>. \<open>RawProjectMeta\<close> is \<open>Omit<ProjectMeta, 'isInternal'>\<close>,
  so \<open>ProjectMeta\<close> is the raw record extended by the flag. The field \<open>id\<close> and
  \<open>name\<close> of the source are written \<open>meta_id\<close> and \<open>meta_name\<close> (\<open>id\<close> is the
  identity function of HOL).
\<close>

record RawProjectMeta =
  meta_id :: string
  meta_name :: string
  description :: string
  createdAt :: string
  filePath :: string

record ProjectMeta = RawProjectMeta +
  isInternal :: bool

text \<open>
  What \<open>isPathInternal\<close> reads from outside the repository: Electron's
  \<open>app.getPath('userData')\<close>, and Node's \<open>path.sep\<close> and \<open>path.normalize\<close>.
\<close>

record Platform =
  userData :: string
  sep :: string
  normalize :: "string \<Rightarrow> string"

text \<open>
  The store holds the key \<open>metas\<close> or does not hold it yet: \<open>indexStore.get('metas', [])\<close>
  falls back to the empty list. \<open>get\<close> hands out a copy, so only \<open>set\<close> changes the
  store.
\<close>

type_synonym IndexStore = "ProjectMeta list option"

datatype error = Error string

definition getProjectIndex :: "IndexStore \<Rightarrow> ProjectMeta list" where
  "getProjectIndex indexStore = (case indexStore of None \<Rightarrow> [] | Some metas \<Rightarrow> metas)"

definition isPathInternal :: "Platform \<Rightarrow> string \<Rightarrow> bool" where
  "isPathInternal env fp =
     (let normalizedUserData = normalize env (userData env @ sep env);
          normalizedFile = normalize env fp
      in prefix normalizedUserData normalizedFile)"

definition buildMeta :: "Platform \<Rightarrow> RawProjectMeta \<Rightarrow> ProjectMeta" where
  "buildMeta env meta =
     \<lparr> meta_id = meta_id meta,
       meta_name = meta_name meta,
       description = description meta,
       createdAt = createdAt meta,
       filePath = filePath meta,
       isInternal = isPathInternal env (filePath meta) \<rparr>"

text \<open>
  \<open>Array.prototype.findIndex\<close>: the index of the first element the predicate accepts,
  \<open>-1\<close> when there is none.
\<close>

fun findIndexFrom :: "nat \<Rightarrow> ('a \<Rightarrow> bool) \<Rightarrow> 'a list \<Rightarrow> int" where
  "findIndexFrom k p [] = - 1"
| "findIndexFrom k p (x # xs) = (if p x then int k else findIndexFrom (Suc k) p xs)"

definition findIndex :: "('a \<Rightarrow> bool) \<Rightarrow> 'a list \<Rightarrow> int" where
  "findIndex p xs = findIndexFrom 0 p xs"

text \<open>
  \<open>Array.prototype.splice(start, deleteCount, ...items)\<close>, as ECMAScript defines it: a
  negative \<open>start\<close> counts from the end and is clamped at 0, a \<open>start\<close> beyond the end
  is clamped to the length, and \<open>deleteCount\<close> is clamped to what is left.
\<close>

definition splice :: "int \<Rightarrow> int \<Rightarrow> 'a list \<Rightarrow> 'a list \<Rightarrow> 'a list" where
  "splice start deleteCount items xs =
     (let len = int (length xs);
          actualStart = (if start < 0 then max (len + start) 0 else min start len);
          actualDeleteCount = min (max deleteCount 0) (len - actualStart)
      in take (nat actualStart) xs @ items @ drop (nat (actualStart + actualDeleteCount)) xs)"

definition projectFilePath :: "string \<Rightarrow> IndexStore \<Rightarrow> error + string" where
  "projectFilePath pid indexStore =
     (case find (\<lambda>meta. meta_id meta = pid) (getProjectIndex indexStore) of
        None \<Rightarrow> Inl (Error (''Project with id '' @ pid @ '' not found''))
      | Some meta \<Rightarrow>
          (if filePath meta = [] then Inl (Error (''Project with id '' @ pid @ '' not found''))
           else Inr (filePath meta)))"

text \<open>
  The two writers return what they hand back (an error for a \<open>throw\<close>) together with the
  store afterwards.
\<close>

definition addProjectMeta :: "Platform \<Rightarrow> RawProjectMeta \<Rightarrow> IndexStore \<Rightarrow> (error + unit) \<times> IndexStore" where
  "addProjectMeta env meta indexStore =
     (let metas = getProjectIndex indexStore in
      if findIndex (\<lambda>m. meta_id m = meta_id meta) metas \<noteq> - 1
      then (Inl (Error (''Project with id '' @ meta_id meta @ '' already exists'')), indexStore)
      else (Inr (), Some (metas @ [buildMeta env meta])))"

definition updateProjectMeta :: "Platform \<Rightarrow> RawProjectMeta \<Rightarrow> IndexStore \<Rightarrow> IndexStore" where
  "updateProjectMeta env meta indexStore =
     (let metas = getProjectIndex indexStore in
      Some (splice (findIndex (\<lambda>m. meta_id m = meta_id meta) metas) 1 [buildMeta env meta] metas))"

definition removeProjectMeta :: "string \<Rightarrow> IndexStore \<Rightarrow> IndexStore" where
  "removeProjectMeta pid indexStore =
     Some (filter (\<lambda>m. meta_id m \<noteq> pid) (getProjectIndex indexStore))"

section \<open>JavaScript numbers and strings\<close>

text \<open>
  A JavaScript number is an IEEE 754 double: a finite value, an infinity or NaN. A finite
  double is kept as the rational it denotes; the two zeros are one value here (they add
  and compare alike). \<open>roundDouble\<close> rounds a rational to the nearest double, ties to the
  even significand, with subnormals below \<open>2\<^sup>-\<^sup>1\<^sup>0\<^sup>2\<^sup>2\<close> and overflow to infinity: it is how
  a decimal literal is read and how the exact result of an addition is stored. So
  \<open>Finite q\<close> is a number of the program when \<open>roundDouble q = Finite q\<close>, as 72.4 read
  as \<open>roundDouble (724 / 10)\<close> is, and as every whole number from 0 to below \<open>2\<^sup>5\<^sup>3\<close> is.
\<close>

datatype number = Finite rat | PosInfinity | NegInfinity | NaN

function bitlen :: "int \<Rightarrow> int" where
  "bitlen n = (if n \<le> 0 then 0 else 1 + bitlen (n div 2))"
  by pat_completeness auto
termination
  by (relation "measure nat") auto

declare bitlen.simps [simp del]

definition pow2 :: "int \<Rightarrow> rat" where
  "pow2 e = (if 0 \<le> e then 2 ^ nat e else 1 / 2 ^ nat (- e))"

text \<open>The exponent of a positive rational: the \<open>e\<close> with \<open>2\<^sup>e \<le> a < 2\<^sup>e\<^sup>+\<^sup>1\<close>.\<close>

definition floorLog2 :: "rat \<Rightarrow> int" where
  "floorLog2 a =
     (let (p, q) = quotient_of a;
          d = bitlen p - bitlen q
      in if pow2 d \<le> a then d else d - 1)"

definition roundHalfEven :: "rat \<Rightarrow> int" where
  "roundHalfEven x =
     (let f = \<lfloor>x\<rfloor>; r = x - of_int f
      in if r < 1 / 2 then f else if 1 / 2 < r then f + 1 else if even f then f else f + 1)"

definition roundDouble :: "rat \<Rightarrow> number" where
  "roundDouble q =
     (if q = 0 then Finite 0
      else
        (let a = \<bar>q\<bar>;
             e = max (floorLog2 a) (- 1022);
             ulp = pow2 (e - 52);
             n = roundHalfEven (a / ulp)
         in if 1024 \<le> e \<or> (e = 1023 \<and> 9007199254740992 \<le> n)
            then (if 0 < q then PosInfinity else NegInfinity)
            else Finite (sgn q * (of_int n * ulp))))"

text \<open>The operators \<open>+\<close> and \<open>>\<close> on numbers.\<close>

fun jsAdd :: "number \<Rightarrow> number \<Rightarrow> number" where
  "jsAdd (Finite x) (Finite y) = roundDouble (x + y)"
| "jsAdd NaN y = NaN"
| "jsAdd x NaN = NaN"
| "jsAdd PosInfinity NegInfinity = NaN"
| "jsAdd NegInfinity PosInfinity = NaN"
| "jsAdd PosInfinity y = PosInfinity"
| "jsAdd NegInfinity y = NegInfinity"
| "jsAdd (Finite x) y = y"

fun jsGreater :: "number \<Rightarrow> number \<Rightarrow> bool" where
  "jsGreater (Finite x) (Finite y) = (y < x)"
| "jsGreater NaN y = False"
| "jsGreater x NaN = False"
| "jsGreater x PosInfinity = False"
| "jsGreater NegInfinity y = False"
| "jsGreater PosInfinity y = True"
| "jsGreater (Finite x) NegInfinity = True"

text \<open>
  A JavaScript string is a sequence of UTF-16 code units. Names are kept that way, since
  they go through \<open>trim\<close> and \<open>toLowerCase\<close>; \<open>utf16\<close> writes a name of Basic Latin and
  Latin-1 characters, each of which is one code unit. Ids and messages are only compared
  and stay HOL strings.
\<close>

type_synonym jsstring = "nat list"

definition utf16 :: "string \<Rightarrow> jsstring" where
  "utf16 s = map of_char s"

text \<open>
  \<open>String.prototype.trim\<close> strips ECMAScript's WhiteSpace and LineTerminator code points
  from both ends: tab, line feed, vertical tab, form feed, carriage return, the space
  separators of Unicode (U+0020, U+00A0, U+1680, U+2000 to U+200A, U+202F, U+205F, U+3000),
  the line and paragraph separators U+2028 and U+2029, and U+FEFF. Each is one code unit.
\<close>

definition isWhiteSpace :: "nat \<Rightarrow> bool" where
  "isWhiteSpace u =
     ((0x9 \<le> u \<and> u \<le> 0xD) \<or> u = 0x20 \<or> u = 0xA0 \<or> u = 0x1680 \<or>
      (0x2000 \<le> u \<and> u \<le> 0x200A) \<or> u = 0x2028 \<or> u = 0x2029 \<or> u = 0x202F \<or>
      u = 0x205F \<or> u = 0x3000 \<or> u = 0xFEFF)"

definition trim :: "jsstring \<Rightarrow> jsstring" where
  "trim s = rev (dropWhile isWhiteSpace (rev (dropWhile isWhiteSpace s)))"

section \<open>The vehicle table of the flight page\<close>

text \<open>
  The entities the component reads. Seat counts are integers; weights are JavaScript
  numbers. \<open>id\<close>, \<open>name\<close> and \<open>type\<close> carry the entity's name as a prefix. A person's
  weight is unset (\<open>null\<close> or \<open>undefined\<close>) or a number.
\<close>

datatype VehicleType = Balloon | Car

text \<open>
  A balloon's optional \<open>maxWeight\<close>: the edit dialog stores \<open>undefined\<close> when the field
  is empty, and the component tests \<open>!== null\<close>, so the three cases are kept apart.
\<close>

datatype optnum = Undefined | Null | Num number

record Person =
  person_id :: string
  person_name :: string
  role :: string
  weight :: "number option"

record Vehicle =
  vehicle_id :: string
  vehicle_type :: VehicleType
  vehicle_name :: jsstring
  maxCapacity :: int
  maxWeight :: optnum
  allowedOperatorIds :: "string list"

record VehicleAssignment =
  assignment_id :: string
  operatorId :: "string option"
  passengerIds :: "string list"

record VehicleGroup =
  balloon :: VehicleAssignment
  cars :: "VehicleAssignment list"

record InfoMessage =
  message :: string
  color :: string

text \<open>
  \<open>vehicle\<close>: the car of that id when the car map has one, the balloon map's entry
  otherwise (\<open>None\<close> is \<open>undefined\<close>).
\<close>

definition vehicle :: "(string \<rightharpoonup> Vehicle) \<Rightarrow> (string \<rightharpoonup> Vehicle) \<Rightarrow> VehicleAssignment \<Rightarrow> Vehicle option" where
  "vehicle carMap balloonMap assignment =
     (case carMap (assignment_id assignment) of
        Some car \<Rightarrow> Some car
      | None \<Rightarrow> balloonMap (assignment_id assignment))"

text \<open>
  \<open>personMap.value[assignment.operatorId]\<close>: a property read, whose key is the id, or
  the string \<open>null\<close> for the operator \<open>null\<close>.
\<close>

definition personAt :: "(string \<rightharpoonup> Person) \<Rightarrow> string option \<Rightarrow> Person option" where
  "personAt personMap key = personMap (case key of None \<Rightarrow> ''null'' | Some k \<Rightarrow> k)"

text \<open>\<open>person?.weight ?? fallback\<close>\<close>

definition weightOr :: "number \<Rightarrow> Person option \<Rightarrow> number" where
  "weightOr fallback person =
     (case person of
        None \<Rightarrow> fallback
      | Some p \<Rightarrow> (case weight p of None \<Rightarrow> fallback | Some w \<Rightarrow> w))"

text \<open>
  \<open>totalWeight\<close>: \<open>reduce\<close> over the passengers' map entries, from the operator's
  weight, with \<open>personDefaultWeight.value ?? 0\<close> as the fallback.
\<close>

definition totalWeight :: "(string \<rightharpoonup> Person) \<Rightarrow> number option \<Rightarrow> VehicleAssignment \<Rightarrow> number" where
  "totalWeight personMap personDefaultWeight assignment =
     (let fallback = (case personDefaultWeight of None \<Rightarrow> Finite 0 | Some w \<Rightarrow> w) in
      foldl (\<lambda>acc person. jsAdd acc (weightOr fallback person))
        (weightOr fallback (personAt personMap (operatorId assignment)))
        (map (\<lambda>i. personMap i) (passengerIds assignment)))"

text \<open>\<open>hideEmptyCapacity\<close> is \<open>ref(false)\<close> and the component never assigns it.\<close>

definition hideEmptyCapacity :: bool where
  "hideEmptyCapacity = False"

text \<open>
  \<open>capacity\<close>. Its first argument \<open>remaining\<close> is the composable's
  \<open>remainingCapacity\<close>, which maps a group to the seats left for each of its cars.
\<close>

definition capacity :: "(VehicleGroup \<Rightarrow> (string \<rightharpoonup> int)) \<Rightarrow> Vehicle \<Rightarrow> VehicleGroup \<Rightarrow> VehicleAssignment \<Rightarrow> int" where
  "capacity remaining v vgroup assignment =
     (let c0 = maxCapacity v;
          c1 = (if vehicle_type v = Car
                then (case remaining vgroup (assignment_id assignment) of
                        None \<Rightarrow> 0 | Some c \<Rightarrow> c)
                else c0);
          c2 = (if c1 < 0 then 0 else c1)
      in if hideEmptyCapacity then int (length (passengerIds assignment)) else c2)"

definition rowCount :: "(VehicleGroup \<Rightarrow> (string \<rightharpoonup> int)) \<Rightarrow> Vehicle \<Rightarrow> VehicleGroup \<Rightarrow> VehicleAssignment \<Rightarrow> int" where
  "rowCount remaining v vgroup assignment =
     max (capacity remaining v vgroup assignment) (int (length (passengerIds assignment)) + 1)"

text \<open>
  \<open>totalWeight.value > vehicle.value.maxWeight\<close>: against \<open>undefined\<close> the comparison is
  with NaN and false; \<open>null\<close> would count as 0.
\<close>

fun exceeds :: "number \<Rightarrow> optnum \<Rightarrow> bool" where
  "exceeds kg Undefined = False"
| "exceeds kg Null = jsGreater kg (Finite 0)"
| "exceeds kg (Num m) = jsGreater kg m"

definition tooManyPassengers :: InfoMessage where
  "tooManyPassengers = \<lparr> message = ''Too many passengers for this vehicle.'', color = ''negative'' \<rparr>"

definition operatorNotAllowed :: InfoMessage where
  "operatorNotAllowed = \<lparr> message = ''This operator is not allowed for this vehicle.'', color = ''negative'' \<rparr>"

definition weightExceeded :: InfoMessage where
  "weightExceeded = \<lparr> message = ''Total weight exceeds maximum weight.'', color = ''warning'' \<rparr>"

definition infoMessage ::
  "(VehicleGroup \<Rightarrow> (string \<rightharpoonup> int)) \<Rightarrow> (string \<rightharpoonup> Person) \<Rightarrow> number option \<Rightarrow>
     Vehicle \<Rightarrow> VehicleGroup \<Rightarrow> VehicleAssignment \<Rightarrow> InfoMessage option" where
  "infoMessage remaining personMap personDefaultWeight v vgroup assignment =
     (if int (length (passengerIds assignment)) > capacity remaining v vgroup assignment - 1
      then Some tooManyPassengers
      else if (case operatorId assignment of
                 None \<Rightarrow> False
               | Some operator \<Rightarrow> operator \<notin> set (allowedOperatorIds v))
      then Some operatorNotAllowed
      else if vehicle_type v = Balloon \<and> maxWeight v \<noteq> Null \<and>
              exceeds (totalWeight personMap personDefaultWeight assignment) (maxWeight v)
      then Some weightExceeded
      else None)"

text \<open>
  Modelled from the spec: \<open>remainingCapacity\<close> of \<open>src/composables/reservedCapacity\<close>, which
  the component imports and the sources do not hold. The spec: cars inherit their
  passenger-capacity ceiling from the group's total minus already-assigned balloon
  passengers (capacity sharing across the group, not fixed per car). The group's total is
  an argument, since the spec does not say how it is summed.
\<close>

definition remainingCapacity :: "int \<Rightarrow> VehicleGroup \<Rightarrow> (string \<rightharpoonup> int)" where
  "remainingCapacity groupTotal vgroup =
     map_of (map (\<lambda>car. (assignment_id car, groupTotal - int (length (passengerIds (balloon vgroup)))))
                 (cars vgroup))"

text \<open>
  The total weight as claim C4 words it, for comparison with \<open>totalWeight\<close>: the weights
  of the people aboard (the operator, when there is one, and the passengers, as far as the
  person map knows them), the default weight standing in for every person whose weight is
  unset.
\<close>

definition peopleAboard :: "(string \<rightharpoonup> Person) \<Rightarrow> VehicleAssignment \<Rightarrow> Person list" where
  "peopleAboard personMap assignment =
     List.map_filter personMap
       ((case operatorId assignment of None \<Rightarrow> [] | Some i \<Rightarrow> [i]) @ passengerIds assignment)"

definition statedTotalWeight :: "(string \<rightharpoonup> Person) \<Rightarrow> number option \<Rightarrow> VehicleAssignment \<Rightarrow> number" where
  "statedTotalWeight personMap personDefaultWeight assignment =
     (let fallback = (case personDefaultWeight of None \<Rightarrow> Finite 0 | Some w \<Rightarrow> w) in
      foldl jsAdd (Finite 0)
        (map (\<lambda>p. case weight p of None \<Rightarrow> fallback | Some w \<Rightarrow> w)
             (peopleAboard personMap assignment)))"

section \<open>The balloon edit dialog\<close>

text \<open>
  \<open>nameIsUnique\<close>, with the component's props \<open>balloon\<close> and \<open>existingNames\<close> (both
  optional) as arguments. \<open>String.prototype.toLowerCase\<close> is the engine's (Unicode's
  default case conversion); it is the first argument, and nothing is assumed of it.
\<close>

definition nameIsUnique ::
  "(jsstring \<Rightarrow> jsstring) \<Rightarrow> Vehicle option \<Rightarrow> jsstring list option \<Rightarrow> jsstring \<Rightarrow> bool" where
  "nameIsUnique toLowerCase balloonProp existingNames name0 =
     (let name = toLowerCase (trim name0) in
      if (case balloonProp of None \<Rightarrow> False | Some b \<Rightarrow> name = toLowerCase (vehicle_name b))
      then True
      else \<not> (case existingNames of
                None \<Rightarrow> False
              | Some names \<Rightarrow> list_ex (\<lambda>existingName. toLowerCase existingName = name) names))"

section \<open>The Smart Fill dialog\<close>

datatype FlightLeg = First | Second

record SmartFillOptions =
  leg :: "FlightLeg option"
  wPassengerFairness :: "int option"
  wSecondLegFairness :: "int option"
  wPilotFairness :: "int option"
  wVehicleRotation :: "int option"
  wNationalityDiversity :: "int option"
  timeLimit :: "int option"

text \<open>The dialog starts from \<open>reactive({ leg: null })\<close>.\<close>

definition initialOptions :: SmartFillOptions where
  "initialOptions =
     \<lparr> leg = None, wPassengerFairness = None, wSecondLegFairness = None, wPilotFairness = None,
       wVehicleRotation = None, wNationalityDiversity = None, timeLimit = None \<rparr>"

definition flightLegOptions :: "(string \<times> FlightLeg option) list" where
  "flightLegOptions = [(''None'', None), (''First'', Some First), (''Second'', Some Second)]"

text \<open>
  The inputs the expansion item \<open>Advanced Options\<close> renders, in the template's order. The
  second one carries \<open>v-if="options.leg != null"\<close>.
\<close>

datatype OptionInput =
  PassengerFairnessWeight | SecondLegFairnessWeight | PilotFairnessWeight |
  VehicleRotationWeight | NationalityDiversityWeight | TimeLimitSeconds

definition advancedOptions :: "SmartFillOptions \<Rightarrow> OptionInput list" where
  "advancedOptions options =
     [PassengerFairnessWeight]
     @ (if leg options \<noteq> None then [SecondLegFairnessWeight] else [])
     @ [PilotFairnessWeight, VehicleRotationWeight, NationalityDiversityWeight, TimeLimitSeconds]"

section \<open>The Smart Fill request\<close>

text \<open>
  The main process imports the solver from \<open>src-electron/solverAPI\<close>, which the sources
  do not hold. What follows is its boundary as the spec describes it: the typed result of
  a request, and what the Search Engine reports back (how it ended, and after how many
  iterations).
\<close>

type_synonym AssignmentPlan = "VehicleAssignment list"

record ProblemInstance =
  vehicleSlots :: "Vehicle list"
  people :: "Person list"

datatype SolverError = InvalidConfiguration | Infeasible | Cancelled | SolverFault

datatype SearchOutcome =
  BestFeasible AssignmentPlan | NoFeasibleSeed | CancelledEmpty | InvariantViolated

record SearchRun =
  outcome :: SearchOutcome
  iterations :: nat

definition weights :: "SmartFillOptions \<Rightarrow> int option list" where
  "weights options =
     [wPassengerFairness options, wSecondLegFairness options, wPilotFairness options,
      wVehicleRotation options, wNationalityDiversity options]"

definition nonPositive :: "int option \<Rightarrow> bool" where
  "nonPositive x = (case x of None \<Rightarrow> False | Some n \<Rightarrow> n \<le> 0)"

definition negative :: "int option \<Rightarrow> bool" where
  "negative x = (case x of None \<Rightarrow> False | Some n \<Rightarrow> n < 0)"

text \<open>
  Modelled from the spec: the validation of a request, which the missing solver performs.
  The spec: fails with \<open>InvalidConfiguration\<close> if \<open>options.timeLimit \<le> 0\<close>, if any weight is
  negative, or if the vehicle set is empty. Every field of the options is optional, and an
  unset field is neither non-positive nor negative.
\<close>

definition invalidConfiguration :: "SmartFillOptions \<Rightarrow> ProblemInstance \<Rightarrow> bool" where
  "invalidConfiguration options instance =
     (nonPositive (timeLimit options) \<or> list_ex negative (weights options) \<or>
      vehicleSlots instance = [])"

text \<open>
  Modelled from the spec: \<open>runSmartFill\<close> of the missing solver. The spec: it fails fast
  before any search starts; all failures are returned as typed results from
  \<open>runSmartFill\<close>; a plan found when the time ran out is a success; and the Plan Applier
  is only invoked on a successful outcome. The Search Engine and the Plan Applier are
  arguments. The result carries the number of search iterations that ran and the live
  flight state afterwards.
\<close>

definition runSmartFill ::
  "(SmartFillOptions \<Rightarrow> ProblemInstance \<Rightarrow> SearchRun) \<Rightarrow> (AssignmentPlan \<Rightarrow> 'live \<Rightarrow> 'live) \<Rightarrow>
     SmartFillOptions \<Rightarrow> ProblemInstance \<Rightarrow> 'live \<Rightarrow> (SolverError + AssignmentPlan) \<times> nat \<times> 'live" where
  "runSmartFill search applyPlan options instance live =
     (if invalidConfiguration options instance then (Inl InvalidConfiguration, 0, live)
      else
        (let run = search options instance in
         case outcome run of
           BestFeasible plan \<Rightarrow> (Inr plan, iterations run, applyPlan plan live)
         | NoFeasibleSeed \<Rightarrow> (Inl Infeasible, iterations run, live)
         | CancelledEmpty \<Rightarrow> (Inl Cancelled, iterations run, live)
         | InvariantViolated \<Rightarrow> (Inl SolverFault, iterations run, live)))"

section \<open>Concrete inputs\<close>

text \<open>A POSIX platform whose paths are already normal, and raw metas by id.\<close>

definition posix :: Platform where
  "posix = \<lparr> userData = ''/home/u/.config/app'', sep = ''/'', normalize = (\<lambda>p. p) \<rparr>"

definition rawMeta :: "string \<Rightarrow> RawProjectMeta" where
  "rawMeta i =
     \<lparr> meta_id = i, meta_name = ''Camp '' @ i, description = [], createdAt = ''2025-07-01'',
       filePath = ''/home/u/.config/app/'' @ i \<rparr>"

definition storedMeta :: "string \<Rightarrow> ProjectMeta" where
  "storedMeta i =
     \<lparr> meta_id = i, meta_name = ''Old '' @ i, description = [], createdAt = ''2024-07-01'',
       filePath = ''/srv/'' @ i, isInternal = False \<rparr>"

text \<open>
  One vehicle group: a balloon for three (the pilot included) with a weight limit, and a
  car. \<open>crew\<close> is an assignment of the balloon; person \<open>p3\<close> has no weight set.
\<close>

definition sampleBalloon :: Vehicle where
  "sampleBalloon =
     \<lparr> vehicle_id = ''b1'', vehicle_type = Balloon, vehicle_name = utf16 ''D-OABC'', maxCapacity = 3,
       maxWeight = Num (Finite 200), allowedOperatorIds = [''p1''] \<rparr>"

definition sampleCar :: Vehicle where
  "sampleCar =
     \<lparr> vehicle_id = ''c1'', vehicle_type = Car, vehicle_name = utf16 ''Bus'', maxCapacity = 9,
       maxWeight = Undefined, allowedOperatorIds = [''p2''] \<rparr>"

definition samplePeople :: "string \<rightharpoonup> Person" where
  "samplePeople =
     [''p1'' \<mapsto> \<lparr> person_id = ''p1'', person_name = ''Ada'', role = ''counselor'', weight = Some (Finite 80) \<rparr>,
      ''p3'' \<mapsto> \<lparr> person_id = ''p3'', person_name = ''Ben'', role = ''participant'', weight = None \<rparr>,
      ''p4'' \<mapsto> \<lparr> person_id = ''p4'', person_name = ''Cleo'', role = ''participant'', weight = Some (Finite 70) \<rparr>]"

definition crew :: "string option \<Rightarrow> string list \<Rightarrow> VehicleAssignment" where
  "crew operator passengers =
     \<lparr> assignment_id = ''b1'', operatorId = operator, passengerIds = passengers \<rparr>"

definition carCrew :: VehicleAssignment where
  "carCrew = \<lparr> assignment_id = ''c1'', operatorId = Some ''p2'', passengerIds = [] \<rparr>"

definition sampleGroup :: VehicleGroup where
  "sampleGroup = \<lparr> balloon = crew (Some ''p1'') [''p3'', ''p4''], cars = [carCrew] \<rparr>"

text \<open>
  People with fractional weights, a balloon whose limit is their decimal sum, and a
  balloon whose stored name starts with a space.
\<close>

definition fractionalPeople :: "string \<rightharpoonup> Person" where
  "fractionalPeople =
     [''p1'' \<mapsto> \<lparr> person_id = ''p1'', person_name = ''Ada'', role = ''counselor'',
                  weight = Some (roundDouble (724 / 10)) \<rparr>,
      ''p3'' \<mapsto> \<lparr> person_id = ''p3'', person_name = ''Ben'', role = ''participant'',
                  weight = Some (roundDouble (842 / 10)) \<rparr>,
      ''p4'' \<mapsto> \<lparr> person_id = ''p4'', person_name = ''Cleo'', role = ''participant'',
                  weight = Some (roundDouble (654 / 10)) \<rparr>]"

definition tightBalloon :: Vehicle where
  "tightBalloon = sampleBalloon\<lparr> maxWeight := Num (Finite 222) \<rparr>"

definition paddedBalloon :: Vehicle where
  "paddedBalloon = sampleBalloon\<lparr> vehicle_name := utf16 '' Hopper'' \<rparr>"

text \<open>
  A lowercase conversion for the concrete names: on code units below 256 it is what
  \<open>String.prototype.toLowerCase\<close> does (\<open>A\<close> to \<open>Z\<close> and U+00C0 to U+00DE without the
  multiplication sign move up by 32); other code units are left alone.
\<close>

definition latin1ToLowerCase :: "jsstring \<Rightarrow> jsstring" where
  "latin1ToLowerCase s =
     map (\<lambda>u. if (65 \<le> u \<and> u \<le> 90) \<or> (192 \<le> u \<and> u \<le> 222 \<and> u \<noteq> 215) then u + 32 else u) s"

text \<open>A search engine that finds no seed after seven iterations, and one that finds a plan.\<close>

definition noSeedSearch :: "SmartFillOptions \<Rightarrow> ProblemInstance \<Rightarrow> SearchRun" where
  "noSeedSearch options instance = \<lparr> outcome = NoFeasibleSeed, iterations = 7 \<rparr>"

definition seedSearch :: "SmartFillOptions \<Rightarrow> ProblemInstance \<Rightarrow> SearchRun" where
  "seedSearch options instance = \<lparr> outcome = BestFeasible [carCrew], iterations = 40 \<rparr>"

definition sampleInstance :: ProblemInstance where
  "sampleInstance = \<lparr> vehicleSlots = [sampleBalloon, sampleCar], people = [] \<rparr>"

section \<open>Facts about the array helpers\<close>

lemma findIndexFrom_none:
  "findIndexFrom k p xs = - 1 \<longleftrightarrow> (\<forall>x \<in> set xs. \<not> p x)"
  by (induction xs arbitrary: k) auto

lemma findIndex_none: "findIndex p xs = - 1 \<longleftrightarrow> (\<forall>x \<in> set xs. \<not> p x)"
  by (simp add: findIndex_def findIndexFrom_none)

lemma splice_replace_at:
  "i < length xs \<Longrightarrow> splice (int i) 1 [y] xs = xs[i := y]"
  by (simp add: splice_def Let_def upd_conv_take_nth_drop min_def max_def nat_add_distrib)

lemma splice_minus_one:
  "splice (- 1) 1 [y] xs = butlast xs @ [y]"
proof (cases "xs = []")
  case True
  then show ?thesis by (simp add: splice_def)
next
  case False
  then have len: "0 < length xs" by simp
  then have "nat (int (length xs) + - 1) = length xs - 1" by simp
  with len show ?thesis
    by (simp add: splice_def Let_def butlast_conv_take max_def min_def)
qed

lemma findIndexFrom_some:
  "\<exists>x \<in> set xs. p x \<Longrightarrow>
     \<exists>i < length xs. p (xs ! i) \<and> (\<forall>j < i. \<not> p (xs ! j)) \<and> findIndexFrom k p xs = int (k + i)"
proof (induction xs arbitrary: k)
  case Nil
  then show ?case by simp
next
  case (Cons x xs)
  show ?case
  proof (cases "p x")
    case True
    then have "0 < length (x # xs) \<and> p ((x # xs) ! 0) \<and> (\<forall>j < 0. \<not> p ((x # xs) ! j))
        \<and> findIndexFrom k p (x # xs) = int (k + 0)" by simp
    then show ?thesis by blast
  next
    case False
    with Cons.prems have "\<exists>x \<in> set xs. p x" by simp
    from Cons.IH [OF this, of "Suc k"] obtain i where
      i: "i < length xs" "p (xs ! i)" "\<forall>j < i. \<not> p (xs ! j)"
         "findIndexFrom (Suc k) p xs = int (Suc k + i)"
      by blast
    have "\<forall>j < Suc i. \<not> p ((x # xs) ! j)"
      using False i(3) by (auto simp: less_Suc_eq_0_disj)
    with i False have "Suc i < length (x # xs) \<and> p ((x # xs) ! Suc i)
        \<and> (\<forall>j < Suc i. \<not> p ((x # xs) ! j))
        \<and> findIndexFrom k p (x # xs) = int (k + Suc i)" by simp
    then show ?thesis by blast
  qed
qed

section \<open>The project index: updating and adding a meta\<close>

lemma updateProjectMeta_found:
  assumes "\<exists>m \<in> set (getProjectIndex s). meta_id m = meta_id meta"
  shows "\<exists>i < length (getProjectIndex s).
           meta_id (getProjectIndex s ! i) = meta_id meta \<and>
           (\<forall>j < i. meta_id (getProjectIndex s ! j) \<noteq> meta_id meta) \<and>
           updateProjectMeta env meta s = Some ((getProjectIndex s)[i := buildMeta env meta])"
proof -
  from findIndexFrom_some [OF assms, of 0] obtain i where
    i: "i < length (getProjectIndex s)" "meta_id (getProjectIndex s ! i) = meta_id meta"
       "\<forall>j < i. meta_id (getProjectIndex s ! j) \<noteq> meta_id meta"
       "findIndex (\<lambda>m. meta_id m = meta_id meta) (getProjectIndex s) = int i"
    by (auto simp: findIndex_def)
  have "updateProjectMeta env meta s = Some ((getProjectIndex s)[i := buildMeta env meta])"
    by (simp add: updateProjectMeta_def Let_def i(4) splice_replace_at [OF i(1)])
  with i show ?thesis by blast
qed

lemma updateProjectMeta_missing:
  assumes "\<forall>m \<in> set (getProjectIndex s). meta_id m \<noteq> meta_id meta"
  shows "updateProjectMeta env meta s = Some (butlast (getProjectIndex s) @ [buildMeta env meta])"
proof -
  from assms have "findIndex (\<lambda>m. meta_id m = meta_id meta) (getProjectIndex s) = - 1"
    by (simp add: findIndex_none)
  then show ?thesis
    by (simp add: updateProjectMeta_def Let_def splice_minus_one)
qed

text \<open>
  Claim C8. If the persisted index holds an entry with the meta's id, \<open>updateProjectMeta\<close>
  replaces the first such entry in place: the new index is the old one with position \<open>i\<close>
  overwritten by the rebuilt meta, so its length, its order and every other entry are as
  before. If no entry has that id, \<open>findIndex\<close> returns \<open>-1\<close> and \<open>splice(-1, 1, ...)\<close> removes
  the last entry (when there is one) and appends the rebuilt meta.
\<close>

theorem updateProjectMeta_replaces_or_drops_last:
  "((\<exists>m \<in> set (getProjectIndex s). meta_id m = meta_id meta) \<longrightarrow>
      (\<exists>i < length (getProjectIndex s).
         meta_id (getProjectIndex s ! i) = meta_id meta \<and>
         (\<forall>j < i. meta_id (getProjectIndex s ! j) \<noteq> meta_id meta) \<and>
         updateProjectMeta env meta s = Some ((getProjectIndex s)[i := buildMeta env meta]))) \<and>
   ((\<forall>m \<in> set (getProjectIndex s). meta_id m \<noteq> meta_id meta) \<longrightarrow>
      updateProjectMeta env meta s = Some (butlast (getProjectIndex s) @ [buildMeta env meta]))"
  using updateProjectMeta_found [of s meta env] updateProjectMeta_missing [of s meta env]
  by blast

theorem updateProjectMeta_witness:
  "updateProjectMeta posix (rawMeta ''a'') (Some [storedMeta ''a'', storedMeta ''b'', storedMeta ''c''])
     = Some [buildMeta posix (rawMeta ''a''), storedMeta ''b'', storedMeta ''c''] \<and>
   updateProjectMeta posix (rawMeta ''z'') (Some [storedMeta ''a'', storedMeta ''b'', storedMeta ''c''])
     = Some [storedMeta ''a'', storedMeta ''b'', buildMeta posix (rawMeta ''z'')]"
proof -
  let ?ms = "[storedMeta ''a'', storedMeta ''b'', storedMeta ''c'']"
  have ms: "getProjectIndex (Some ?ms) = ?ms"
    by (simp add: getProjectIndex_def)
  have ids: "meta_id (storedMeta ''a'') = ''a''" "meta_id (storedMeta ''b'') = ''b''"
    "meta_id (storedMeta ''c'') = ''c''" "meta_id (rawMeta ''a'') = ''a''"
    "meta_id (rawMeta ''z'') = ''z''"
    by (simp_all add: storedMeta_def rawMeta_def)
  have hit: "\<exists>m \<in> set (getProjectIndex (Some ?ms)). meta_id m = meta_id (rawMeta ''a'')"
    by (simp add: ms ids)
  have miss: "\<forall>m \<in> set (getProjectIndex (Some ?ms)). meta_id m \<noteq> meta_id (rawMeta ''z'')"
    by (simp add: ms ids)
  from updateProjectMeta_replaces_or_drops_last [of "Some ?ms" "rawMeta ''a''" posix] hit
  obtain i where i: "meta_id (?ms ! i) = ''a''" "\<forall>j < i. meta_id (?ms ! j) \<noteq> ''a''"
    and upd: "updateProjectMeta posix (rawMeta ''a'') (Some ?ms)
                = Some (?ms[i := buildMeta posix (rawMeta ''a'')])"
    unfolding ms ids by blast
  have "i = 0"
  proof (rule ccontr)
    assume "i \<noteq> 0"
    with i(2) have "meta_id (?ms ! 0) \<noteq> ''a''" by blast
    then show False by (simp add: ids)
  qed
  with upd have first: "updateProjectMeta posix (rawMeta ''a'') (Some ?ms)
      = Some [buildMeta posix (rawMeta ''a''), storedMeta ''b'', storedMeta ''c'']" by simp
  from updateProjectMeta_replaces_or_drops_last [of "Some ?ms" "rawMeta ''z''" posix] miss
  have "updateProjectMeta posix (rawMeta ''z'') (Some ?ms)
      = Some (butlast ?ms @ [buildMeta posix (rawMeta ''z'')])"
    unfolding ms by blast
  then have "updateProjectMeta posix (rawMeta ''z'') (Some ?ms)
      = Some [storedMeta ''a'', storedMeta ''b'', buildMeta posix (rawMeta ''z'')]"
    by simp
  with first show ?thesis by simp
qed

lemma addProjectMeta_duplicate:
  assumes "\<exists>m \<in> set (getProjectIndex s). meta_id m = meta_id meta"
  shows "addProjectMeta env meta s =
           (Inl (Error (''Project with id '' @ meta_id meta @ '' already exists'')), s)"
proof -
  from assms have "findIndex (\<lambda>m. meta_id m = meta_id meta) (getProjectIndex s) \<noteq> - 1"
    by (simp add: findIndex_none)
  then show ?thesis by (simp add: addProjectMeta_def Let_def)
qed

lemma addProjectMeta_fresh:
  assumes "\<not> (\<exists>m \<in> set (getProjectIndex s). meta_id m = meta_id meta)"
  shows "addProjectMeta env meta s = (Inr (), Some (getProjectIndex s @ [buildMeta env meta]))"
proof -
  from assms have "findIndex (\<lambda>m. meta_id m = meta_id meta) (getProjectIndex s) = - 1"
    by (simp add: findIndex_none)
  then show ?thesis by (simp add: addProjectMeta_def Let_def)
qed

text \<open>
  Claim C9. \<open>addProjectMeta\<close> throws exactly when the persisted index already holds an
  entry with the meta's id. When it throws, the store is the one it started from (the
  write comes after the check). When it returns, the store holds the old index with the
  rebuilt meta appended, one entry more.
\<close>

theorem addProjectMeta_throws_iff_duplicate:
  "(isl (fst (addProjectMeta env meta s)) \<longleftrightarrow>
      (\<exists>m \<in> set (getProjectIndex s). meta_id m = meta_id meta)) \<and>
   (isl (fst (addProjectMeta env meta s)) \<longrightarrow>
      addProjectMeta env meta s =
        (Inl (Error (''Project with id '' @ meta_id meta @ '' already exists'')), s)) \<and>
   (\<not> isl (fst (addProjectMeta env meta s)) \<longrightarrow>
      addProjectMeta env meta s = (Inr (), Some (getProjectIndex s @ [buildMeta env meta])) \<and>
      length (getProjectIndex (snd (addProjectMeta env meta s))) = Suc (length (getProjectIndex s)))"
proof (cases "\<exists>m \<in> set (getProjectIndex s). meta_id m = meta_id meta")
  case True
  from addProjectMeta_duplicate [OF True, of env] True show ?thesis by simp
next
  case False
  from addProjectMeta_fresh [OF False, of env] False show ?thesis
    by (simp add: getProjectIndex_def)
qed

theorem addProjectMeta_witness:
  "addProjectMeta posix (rawMeta ''b'') (Some [storedMeta ''a'', storedMeta ''b''])
     = (Inl (Error ''Project with id b already exists''), Some [storedMeta ''a'', storedMeta ''b'']) \<and>
   addProjectMeta posix (rawMeta ''c'') (Some [storedMeta ''a'', storedMeta ''b''])
     = (Inr (), Some [storedMeta ''a'', storedMeta ''b'', buildMeta posix (rawMeta ''c'')]) \<and>
   addProjectMeta posix (rawMeta ''c'') None = (Inr (), Some [buildMeta posix (rawMeta ''c'')])"
  using addProjectMeta_throws_iff_duplicate [of posix "rawMeta ''b''" "Some [storedMeta ''a'', storedMeta ''b'']"]
    addProjectMeta_throws_iff_duplicate [of posix "rawMeta ''c''" "Some [storedMeta ''a'', storedMeta ''b'']"]
    addProjectMeta_throws_iff_duplicate [of posix "rawMeta ''c''" None]
  by (simp add: getProjectIndex_def storedMeta_def rawMeta_def)

section \<open>Whole numbers add exactly\<close>

lemma bitlen_le: "0 \<le> k \<Longrightarrow> n < 2 ^ nat k \<Longrightarrow> bitlen n \<le> k"
proof (induction n arbitrary: k rule: bitlen.induct)
  case (1 n)
  show ?case
  proof (cases "n \<le> 0")
    case True
    with "1.prems" show ?thesis by (simp add: bitlen.simps)
  next
    case False
    with "1.prems" have kpos: "0 < k" by (cases "k = 0") auto
    then have "nat k = Suc (nat (k - 1))" by simp
    with "1.prems" have "n div 2 < 2 ^ nat (k - 1)" by simp
    with "1.IH" [of "k - 1"] False kpos have "bitlen (n div 2) \<le> k - 1" by simp
    with False show ?thesis by (simp add: bitlen.simps [of n])
  qed
qed

lemma bitlen_one: "bitlen 1 = 1"
  by (simp add: bitlen.simps [of 1] bitlen.simps [of 0])

lemma floorLog2_of_int_le:
  assumes "n < 2 ^ 53"
  shows "floorLog2 (of_int n) \<le> 52"
proof -
  from assms have "bitlen n \<le> 53" using bitlen_le [of 53 n] by simp
  then show ?thesis
    by (simp add: floorLog2_def Let_def bitlen_one)
qed

lemma roundHalfEven_of_int: "roundHalfEven (of_int m) = m"
  by (simp add: roundHalfEven_def)

lemma roundDouble_of_int:
  assumes "0 \<le> n" and "n < 2 ^ 53"
  shows "roundDouble (of_int n) = Finite (of_int n)"
proof (cases "n = 0")
  case True
  then show ?thesis by (simp add: roundDouble_def)
next
  case False
  with assms have pos: "0 < n" by simp
  define e where "e = max (floorLog2 (of_int n)) (- 1022)"
  have e: "e \<le> 52" using floorLog2_of_int_le [OF assms(2)] by (simp add: e_def)
  define k where "k = nat (52 - e)"
  from e have ulp: "pow2 (e - 52) = 1 / 2 ^ k"
    by (cases "e = 52") (simp_all add: pow2_def k_def)
  have rn: "roundHalfEven (of_int n * 2 ^ k) = n * 2 ^ k"
    using roundHalfEven_of_int [of "n * 2 ^ k"] by simp
  from pos e show ?thesis
    by (simp add: roundDouble_def Let_def e_def [symmetric] ulp rn)
qed

lemma jsAdd_of_nat:
  assumes "a + b < 2 ^ 53"
  shows "jsAdd (Finite (of_nat a)) (Finite (of_nat b)) = Finite (of_nat (a + b))"
proof -
  from assms have "int (a + b) < 2 ^ 53" by (metis of_nat_less_iff of_nat_numeral of_nat_power)
  from roundDouble_of_int [OF _ this] show ?thesis by simp
qed

lemma foldl_jsAdd_of_nat:
  "a + sum_list ks < 2 ^ 53 \<Longrightarrow>
     foldl jsAdd (Finite (of_nat a)) (map (\<lambda>k. Finite (of_nat k)) ks) = Finite (of_nat (a + sum_list ks))"
proof (induction ks arbitrary: a)
  case Nil
  then show ?case by simp
next
  case (Cons k ks)
  from Cons.prems have small: "a + k < 2 ^ 53" and rest: "(a + k) + sum_list ks < 2 ^ 53"
    by simp_all
  have "foldl jsAdd (Finite (of_nat a)) (map (\<lambda>k. Finite (of_nat k)) (k # ks))
      = foldl jsAdd (jsAdd (Finite (of_nat a)) (Finite (of_nat k))) (map (\<lambda>k. Finite (of_nat k)) ks)"
    by (simp only: list.map foldl.simps)
  also have "\<dots> = foldl jsAdd (Finite (of_nat (a + k))) (map (\<lambda>k. Finite (of_nat k)) ks)"
    by (simp only: jsAdd_of_nat [OF small])
  also have "\<dots> = Finite (of_nat ((a + k) + sum_list ks))"
    by (rule Cons.IH [OF rest])
  finally show ?case by (simp add: add.assoc)
qed

section \<open>The vehicle table: the info badge\<close>

lemma messages_distinct:
  "tooManyPassengers \<noteq> operatorNotAllowed" "tooManyPassengers \<noteq> weightExceeded"
  "operatorNotAllowed \<noteq> weightExceeded" "operatorNotAllowed \<noteq> tooManyPassengers"
  "weightExceeded \<noteq> tooManyPassengers" "weightExceeded \<noteq> operatorNotAllowed"
  by (simp_all add: tooManyPassengers_def operatorNotAllowed_def weightExceeded_def)

lemma infoMessage_capacity:
  "infoMessage rc pm dw v g a = Some tooManyPassengers \<longleftrightarrow>
     int (length (passengerIds a)) > capacity rc v g a - 1"
  by (simp add: infoMessage_def messages_distinct)

lemma infoMessage_operator:
  "infoMessage rc pm dw v g a = Some operatorNotAllowed \<longleftrightarrow>
     int (length (passengerIds a)) \<le> capacity rc v g a - 1 \<and>
     (\<exists>operator. operatorId a = Some operator \<and> operator \<notin> set (allowedOperatorIds v))"
  by (auto simp: infoMessage_def messages_distinct split: option.splits)

lemma totalWeight_fold:
  "totalWeight pm dw a =
     (let fallback = (case dw of None \<Rightarrow> Finite 0 | Some w \<Rightarrow> w) in
      foldl jsAdd (weightOr fallback (personAt pm (operatorId a)))
        (map (\<lambda>i. weightOr fallback (pm i)) (passengerIds a)))"
  by (simp add: totalWeight_def Let_def foldl_map)

lemma totalWeight_whole:
  assumes "weightOr (case dw of None \<Rightarrow> Finite 0 | Some w \<Rightarrow> w) (personAt pm (operatorId a))
             = Finite (of_nat k)"
    and "map (\<lambda>i. weightOr (case dw of None \<Rightarrow> Finite 0 | Some w \<Rightarrow> w) (pm i)) (passengerIds a)
             = map (\<lambda>k. Finite (of_nat k)) ks"
    and "k + sum_list ks < 2 ^ 53"
  shows "totalWeight pm dw a = Finite (of_nat (k + sum_list ks))"
  using foldl_jsAdd_of_nat [OF assms(3)] assms(1,2)
  by (simp add: totalWeight_fold Let_def)

lemma infoMessage_weight:
  "infoMessage rc pm dw v g a = Some weightExceeded \<longleftrightarrow>
     int (length (passengerIds a)) \<le> capacity rc v g a - 1 \<and>
     (\<forall>operator. operatorId a = Some operator \<longrightarrow> operator \<in> set (allowedOperatorIds v)) \<and>
     vehicle_type v = Balloon \<and> maxWeight v \<noteq> Null \<and> exceeds (totalWeight pm dw a) (maxWeight v)"
  by (auto simp: infoMessage_def messages_distinct split: option.splits)

lemma sampleBalloon_capacity: "capacity rc sampleBalloon g a = 3"
  by (simp add: capacity_def hideEmptyCapacity_def sampleBalloon_def)

text \<open>
  Claim C2. With \<open>capacity\<close> the seats the component computes for the vehicle (the
  operator's seat included), the badge reports too many passengers exactly when the number
  of assigned passengers exceeds \<open>capacity - 1\<close>; equivalently, it does not report it
  exactly when the passengers and one operator fit into \<open>capacity\<close>.
\<close>

theorem infoMessage_capacity_iff:
  "(infoMessage rc pm dw v g a = Some tooManyPassengers \<longleftrightarrow>
      int (length (passengerIds a)) > capacity rc v g a - 1) \<and>
   (infoMessage rc pm dw v g a \<noteq> Some tooManyPassengers \<longleftrightarrow>
      int (length (passengerIds a)) + 1 \<le> capacity rc v g a)"
proof -
  have "\<not> int (length (passengerIds a)) > capacity rc v g a - 1 \<longleftrightarrow>
          int (length (passengerIds a)) + 1 \<le> capacity rc v g a"
    by arith
  then show ?thesis by (simp add: infoMessage_capacity)
qed

text \<open>
  Claim C3, as amended. For every assignment whose passenger count does not exceed
  \<open>capacity - 1\<close> (so that no capacity violation is reported), the badge reports an
  operator that is not allowed exactly when the operator id is not \<open>null\<close> and is not
  among the vehicle's allowed operator ids. An assignment without an operator never gets
  that report.
\<close>

theorem infoMessage_operator_iff:
  "(int (length (passengerIds a)) \<le> capacity rc v g a - 1 \<longrightarrow>
      (infoMessage rc pm dw v g a = Some operatorNotAllowed \<longleftrightarrow>
         (\<exists>operator. operatorId a = Some operator \<and> operator \<notin> set (allowedOperatorIds v)))) \<and>
   (operatorId a = None \<longrightarrow> infoMessage rc pm dw v g a \<noteq> Some operatorNotAllowed)"
  by (simp add: infoMessage_operator)

theorem infoMessage_operator_witness:
  "int (length (passengerIds (crew (Some ''p9'') [''p3'', ''p4''])))
     \<le> capacity (remainingCapacity 0) sampleBalloon sampleGroup (crew (Some ''p9'') [''p3'', ''p4'']) - 1 \<and>
   infoMessage (remainingCapacity 0) samplePeople (Some (Finite 75)) sampleBalloon sampleGroup
     (crew (Some ''p9'') [''p3'', ''p4'']) = Some operatorNotAllowed \<and>
   infoMessage (remainingCapacity 0) samplePeople (Some (Finite 75)) sampleBalloon sampleGroup
     (crew (Some ''p1'') [''p3'', ''p4'']) \<noteq> Some operatorNotAllowed \<and>
   infoMessage (remainingCapacity 0) samplePeople (Some (Finite 75)) sampleBalloon sampleGroup
     (crew None [''p3'', ''p4'']) \<noteq> Some operatorNotAllowed"
proof -
  let ?rc = "remainingCapacity 0"
  have cap: "int (length (passengerIds (crew x [''p3'', ''p4''])))
     \<le> capacity ?rc sampleBalloon sampleGroup (crew x [''p3'', ''p4'']) - 1" for x
    by (simp add: sampleBalloon_capacity crew_def)
  have bad: "\<exists>operator. operatorId (crew (Some ''p9'') [''p3'', ''p4'']) = Some operator \<and>
      operator \<notin> set (allowedOperatorIds sampleBalloon)"
    by (simp add: crew_def sampleBalloon_def)
  have good: "\<not> (\<exists>operator. operatorId (crew (Some ''p1'') [''p3'', ''p4'']) = Some operator \<and>
      operator \<notin> set (allowedOperatorIds sampleBalloon))"
    by (simp add: crew_def sampleBalloon_def)
  have none: "operatorId (crew None [''p3'', ''p4'']) = None"
    by (simp add: crew_def)
  note th = infoMessage_operator_iff [where rc = ?rc and pm = samplePeople and dw = "Some (Finite 75)"
      and v = sampleBalloon and g = sampleGroup]
  from th [of "crew (Some ''p9'') [''p3'', ''p4'']"] cap bad
  have 1: "infoMessage ?rc samplePeople (Some (Finite 75)) sampleBalloon sampleGroup
     (crew (Some ''p9'') [''p3'', ''p4'']) = Some operatorNotAllowed" by blast
  from th [of "crew (Some ''p1'') [''p3'', ''p4'']"] cap good
  have 2: "infoMessage ?rc samplePeople (Some (Finite 75)) sampleBalloon sampleGroup
     (crew (Some ''p1'') [''p3'', ''p4'']) \<noteq> Some operatorNotAllowed" by blast
  from th [of "crew None [''p3'', ''p4'']"] none
  have 3: "infoMessage ?rc samplePeople (Some (Finite 75)) sampleBalloon sampleGroup
     (crew None [''p3'', ''p4'']) \<noteq> Some operatorNotAllowed" by blast
  from cap [of "Some ''p9''"] 1 2 3 show ?thesis by blast
qed

text \<open>
  The claim as it was stated asks only that the passenger count does not exceed
  \<open>capacity\<close>. With three passengers in the balloon for three, the count does not exceed
  the capacity and the operator \<open>p9\<close> is not allowed, yet the badge reports too many
  passengers: the capacity check comes first and takes the operator's seat into account.
\<close>

theorem infoMessage_operator_counterexample:
  "int (length (passengerIds (crew (Some ''p9'') [''p3'', ''p4'', ''p5''])))
     \<le> capacity (remainingCapacity 0) sampleBalloon sampleGroup (crew (Some ''p9'') [''p3'', ''p4'', ''p5'']) \<and>
   operatorId (crew (Some ''p9'') [''p3'', ''p4'', ''p5'']) = Some ''p9'' \<and>
   ''p9'' \<notin> set (allowedOperatorIds sampleBalloon) \<and>
   infoMessage (remainingCapacity 0) samplePeople (Some (Finite 75)) sampleBalloon sampleGroup
     (crew (Some ''p9'') [''p3'', ''p4'', ''p5'']) = Some tooManyPassengers \<and>
   tooManyPassengers \<noteq> operatorNotAllowed"
proof -
  let ?a = "crew (Some ''p9'') [''p3'', ''p4'', ''p5'']"
  have len: "int (length (passengerIds ?a)) = 3" and op: "operatorId ?a = Some ''p9''"
    by (simp_all add: crew_def)
  have notin: "''p9'' \<notin> set (allowedOperatorIds sampleBalloon)"
    by (simp add: sampleBalloon_def)
  have "infoMessage (remainingCapacity 0) samplePeople (Some (Finite 75)) sampleBalloon sampleGroup ?a
      = Some tooManyPassengers"
    by (simp add: infoMessage_def sampleBalloon_capacity len)
  with len op notin show ?thesis
    by (simp add: sampleBalloon_capacity messages_distinct)
qed

text \<open>
  Claim C4, as amended. For a balloon that declares a maximum weight, when neither too
  many passengers nor a disallowed operator is reported: the total weight is the
  operator's weight and then each passenger's weight, added from left to right as
  JavaScript numbers, where the configured default weight (0 when none is configured)
  stands in for every person whose weight is unset, and also for an absent operator and
  for every id the person map does not know; the badge reports the excess weight exactly
  when that total is greater than the maximum weight. When these weights are whole
  numbers whose sum is below \<open>2\<^sup>5\<^sup>3\<close>, the total is their exact sum.
\<close>

theorem infoMessage_weight_iff:
  assumes "vehicle_type v = Balloon" and "maxWeight v = Num m"
    and "infoMessage rc pm dw v g a \<noteq> Some tooManyPassengers"
    and "infoMessage rc pm dw v g a \<noteq> Some operatorNotAllowed"
  shows "totalWeight pm dw a =
           (let fallback = (case dw of None \<Rightarrow> Finite 0 | Some w \<Rightarrow> w) in
            foldl jsAdd (weightOr fallback (personAt pm (operatorId a)))
              (map (\<lambda>i. weightOr fallback (pm i)) (passengerIds a))) \<and>
         (infoMessage rc pm dw v g a = Some weightExceeded \<longleftrightarrow> jsGreater (totalWeight pm dw a) m) \<and>
         (weightOr (case dw of None \<Rightarrow> Finite 0 | Some w \<Rightarrow> w) (personAt pm (operatorId a))
            = Finite (of_nat k) \<and>
          map (\<lambda>i. weightOr (case dw of None \<Rightarrow> Finite 0 | Some w \<Rightarrow> w) (pm i)) (passengerIds a)
            = map (\<lambda>k. Finite (of_nat k)) ks \<and>
          k + sum_list ks < 2 ^ 53 \<longrightarrow>
            totalWeight pm dw a = Finite (of_nat (k + sum_list ks)))"
proof -
  from assms(3) have cap: "int (length (passengerIds a)) \<le> capacity rc v g a - 1"
    by (simp add: infoMessage_capacity)
  with assms(4) have "\<forall>operator. operatorId a = Some operator \<longrightarrow> operator \<in> set (allowedOperatorIds v)"
    by (auto simp: infoMessage_operator)
  with cap assms(1,2)
  have "infoMessage rc pm dw v g a = Some weightExceeded \<longleftrightarrow> jsGreater (totalWeight pm dw a) m"
    by (simp add: infoMessage_weight)
  with totalWeight_fold [of pm dw a] totalWeight_whole [of dw pm a k ks] show ?thesis
    by blast
qed

theorem infoMessage_weight_witness:
  "totalWeight samplePeople (Some (Finite 75)) (crew (Some ''p1'') [''p3'', ''p4'']) = Finite 225 \<and>
   infoMessage (remainingCapacity 0) samplePeople (Some (Finite 75)) sampleBalloon sampleGroup
     (crew (Some ''p1'') [''p3'', ''p4'']) = Some weightExceeded \<and>
   totalWeight samplePeople None (crew (Some ''p1'') [''p3'', ''p4'']) = Finite 150 \<and>
   infoMessage (remainingCapacity 0) samplePeople None sampleBalloon sampleGroup
     (crew (Some ''p1'') [''p3'', ''p4'']) \<noteq> Some weightExceeded \<and>
   totalWeight fractionalPeople None (crew (Some ''p1'') [''p3'', ''p4''])
     = Finite (222 + 1 / 2 ^ 45) \<and>
   infoMessage (remainingCapacity 0) fractionalPeople None tightBalloon sampleGroup
     (crew (Some ''p1'') [''p3'', ''p4'']) = Some weightExceeded"
proof -
  let ?rc = "remainingCapacity 0"
  let ?a = "crew (Some ''p1'') [''p3'', ''p4'']"
  have ty: "vehicle_type sampleBalloon = Balloon" and mw: "maxWeight sampleBalloon = Num (Finite 200)"
    and ty': "vehicle_type tightBalloon = Balloon" and mw': "maxWeight tightBalloon = Num (Finite 222)"
    by (simp_all add: sampleBalloon_def tightBalloon_def)
  have tight_capacity: "capacity ?rc tightBalloon sampleGroup x = 3" for x
    by (simp add: capacity_def hideEmptyCapacity_def tightBalloon_def sampleBalloon_def)
  have nocap: "infoMessage ?rc pm dw sampleBalloon sampleGroup ?a \<noteq> Some tooManyPassengers" for pm dw
    by (simp add: infoMessage_capacity sampleBalloon_capacity crew_def)
  have noop: "infoMessage ?rc pm dw sampleBalloon sampleGroup ?a \<noteq> Some operatorNotAllowed" for pm dw
    by (simp add: infoMessage_operator sampleBalloon_capacity crew_def sampleBalloon_def)
  have nocap': "infoMessage ?rc pm dw tightBalloon sampleGroup ?a \<noteq> Some tooManyPassengers" for pm dw
    by (simp add: infoMessage_capacity tight_capacity crew_def)
  have noop': "infoMessage ?rc pm dw tightBalloon sampleGroup ?a \<noteq> Some operatorNotAllowed" for pm dw
    by (simp add: infoMessage_operator tight_capacity crew_def tightBalloon_def sampleBalloon_def)
  have op75: "weightOr (case Some (Finite 75) of None \<Rightarrow> Finite 0 | Some w \<Rightarrow> w)
      (personAt samplePeople (operatorId ?a)) = Finite (of_nat 80)"
    and ps75: "map (\<lambda>i. weightOr (case Some (Finite 75) of None \<Rightarrow> Finite 0 | Some w \<Rightarrow> w) (samplePeople i))
      (passengerIds ?a) = map (\<lambda>k. Finite (of_nat k)) [75, 70]"
    and op0: "weightOr (case None of None \<Rightarrow> Finite 0 | Some w \<Rightarrow> w)
      (personAt samplePeople (operatorId ?a)) = Finite (of_nat 80)"
    and ps0: "map (\<lambda>i. weightOr (case None of None \<Rightarrow> Finite 0 | Some w \<Rightarrow> w) (samplePeople i))
      (passengerIds ?a) = map (\<lambda>k. Finite (of_nat k)) [0, 70]"
    by (simp_all add: weightOr_def personAt_def samplePeople_def crew_def)
  have small: "(80::nat) + sum_list [75, 70] < 2 ^ 53" "(80::nat) + sum_list [0, 70] < 2 ^ 53"
    by simp_all
  note w75 = infoMessage_weight_iff [OF ty mw nocap noop, of samplePeople "Some (Finite 75)" 80 "[75, 70]"]
  from w75 op75 ps75 small(1)
  have "totalWeight samplePeople (Some (Finite 75)) ?a = Finite (of_nat (80 + sum_list [75, 70]))"
    by blast
  then have t75: "totalWeight samplePeople (Some (Finite 75)) ?a = Finite 225" by simp
  from w75 have "infoMessage ?rc samplePeople (Some (Finite 75)) sampleBalloon sampleGroup ?a
      = Some weightExceeded \<longleftrightarrow> jsGreater (totalWeight samplePeople (Some (Finite 75)) ?a) (Finite 200)"
    by blast
  with t75 have a: "totalWeight samplePeople (Some (Finite 75)) ?a = Finite 225 \<and>
    infoMessage ?rc samplePeople (Some (Finite 75)) sampleBalloon sampleGroup ?a = Some weightExceeded"
    by simp
  note w0 = infoMessage_weight_iff [OF ty mw nocap noop, of samplePeople None 80 "[0, 70]"]
  from w0 op0 ps0 small(2)
  have "totalWeight samplePeople None ?a = Finite (of_nat (80 + sum_list [0, 70]))"
    by blast
  then have t0: "totalWeight samplePeople None ?a = Finite 150" by simp
  from w0 have "infoMessage ?rc samplePeople None sampleBalloon sampleGroup ?a
      = Some weightExceeded \<longleftrightarrow> jsGreater (totalWeight samplePeople None ?a) (Finite 200)"
    by blast
  with t0 have b: "totalWeight samplePeople None ?a = Finite 150 \<and>
    infoMessage ?rc samplePeople None sampleBalloon sampleGroup ?a \<noteq> Some weightExceeded"
    by simp
  have sum: "foldl jsAdd (roundDouble (724 / 10)) [roundDouble (842 / 10), roundDouble (654 / 10)]
      = Finite (222 + 1 / 2 ^ 45)"
    by code_simp
  have frac: "(let fallback = (case None of None \<Rightarrow> Finite 0 | Some w \<Rightarrow> w) in
      foldl jsAdd (weightOr fallback (personAt fractionalPeople (operatorId ?a)))
        (map (\<lambda>i. weightOr fallback (fractionalPeople i)) (passengerIds ?a)))
      = Finite (222 + 1 / 2 ^ 45)"
    by (simp only: sum [symmetric])
       (simp add: weightOr_def personAt_def fractionalPeople_def crew_def)
  note wf = infoMessage_weight_iff [OF ty' mw' nocap' noop', of fractionalPeople None 0 "[]"]
  from wf frac have tf: "totalWeight fractionalPeople None ?a = Finite (222 + 1 / 2 ^ 45)"
    by simp
  from wf have "infoMessage ?rc fractionalPeople None tightBalloon sampleGroup ?a
      = Some weightExceeded \<longleftrightarrow> jsGreater (totalWeight fractionalPeople None ?a) (Finite 222)"
    by blast
  with tf have c: "totalWeight fractionalPeople None ?a = Finite (222 + 1 / 2 ^ 45) \<and>
    infoMessage ?rc fractionalPeople None tightBalloon sampleGroup ?a = Some weightExceeded"
    by simp
  from a b c show ?thesis by blast
qed

text \<open>
  The claim as it was stated counts the people aboard, with the default weight for those
  whose weight is unset. The balloon with the 200 kg limit, no operator yet and the
  passengers \<open>p3\<close> (no weight set, default 75) and \<open>p4\<close> (70) carries 145 kg stated that
  way, which is not greater than 200; the component adds the default weight for the
  missing operator as well, arrives at 220 and reports the excess.
\<close>

theorem infoMessage_weight_counterexample:
  "vehicle_type sampleBalloon = Balloon \<and> maxWeight sampleBalloon = Num (Finite 200) \<and>
   infoMessage (remainingCapacity 0) samplePeople (Some (Finite 75)) sampleBalloon sampleGroup
     (crew None [''p3'', ''p4'']) = Some weightExceeded \<and>
   weightExceeded \<noteq> tooManyPassengers \<and> weightExceeded \<noteq> operatorNotAllowed \<and>
   statedTotalWeight samplePeople (Some (Finite 75)) (crew None [''p3'', ''p4'']) = Finite 145 \<and>
   \<not> jsGreater (Finite 145) (Finite 200) \<and>
   totalWeight samplePeople (Some (Finite 75)) (crew None [''p3'', ''p4'']) = Finite 220"
proof -
  let ?a = "crew None [''p3'', ''p4'']"
  have stated: "statedTotalWeight samplePeople (Some (Finite 75)) ?a = Finite 145"
    by code_simp
  have total: "totalWeight samplePeople (Some (Finite 75)) ?a = Finite 220"
    by code_simp
  have "infoMessage (remainingCapacity 0) samplePeople (Some (Finite 75)) sampleBalloon sampleGroup ?a
      = Some weightExceeded"
    by (simp add: infoMessage_weight sampleBalloon_capacity total)
       (simp add: crew_def sampleBalloon_def)
  with stated total show ?thesis
    by (simp add: messages_distinct sampleBalloon_def)
qed

section \<open>The vehicle table: a car's capacity\<close>

lemma map_of_const:
  "a \<in> set xs \<Longrightarrow> map_of (map (\<lambda>c. (key c, k)) xs) (key a) = Some k"
  by (induction xs) auto

lemma capacity_car:
  "vehicle_type v = Car \<Longrightarrow>
     capacity rc v g a = max 0 (case rc g (assignment_id a) of None \<Rightarrow> 0 | Some c \<Rightarrow> c)"
  by (simp add: capacity_def hideEmptyCapacity_def Let_def max_def split: option.splits)

text \<open>
  Claim C5. A car's capacity is not its own \<open>maxCapacity\<close>: the component takes it from
  \<open>remainingCapacity\<close> of the group (0 when the group has no entry for the car), and a
  negative value counts as 0. With \<open>remainingCapacity\<close> as the spec describes it, every
  car of the group gets the group's total minus the passengers already assigned to the
  balloon, or 0 when that is negative.
\<close>

theorem capacity_car_shared_pool:
  "(vehicle_type v = Car \<longrightarrow>
      capacity rc v g a = max 0 (case rc g (assignment_id a) of None \<Rightarrow> 0 | Some c \<Rightarrow> c)) \<and>
   (vehicle_type v = Car \<and> a \<in> set (cars g) \<longrightarrow>
      capacity (remainingCapacity groupTotal) v g a
        = max 0 (groupTotal - int (length (passengerIds (balloon g)))))"
  by (simp add: capacity_car remainingCapacity_def map_of_const)

theorem capacity_car_witness:
  "maxCapacity sampleCar = 9 \<and>
   capacity (remainingCapacity 5) sampleCar sampleGroup carCrew = 3 \<and>
   capacity (remainingCapacity 1) sampleCar sampleGroup carCrew = 0"
proof -
  have car: "vehicle_type sampleCar = Car \<and> carCrew \<in> set (cars sampleGroup)"
    by (simp add: sampleCar_def sampleGroup_def)
  have n: "int (length (passengerIds (balloon sampleGroup))) = 2"
    by (simp add: sampleGroup_def crew_def)
  from capacity_car_shared_pool [of sampleCar "remainingCapacity 5" sampleGroup carCrew 5] car n
  have 1: "capacity (remainingCapacity 5) sampleCar sampleGroup carCrew = 3" by simp
  from capacity_car_shared_pool [of sampleCar "remainingCapacity 1" sampleGroup carCrew 1] car n
  have 2: "capacity (remainingCapacity 1) sampleCar sampleGroup carCrew = 0" by simp
  from 1 2 show ?thesis by (simp add: sampleCar_def)
qed

section \<open>The balloon edit dialog: unique names\<close>

lemma last_dropWhile:
  "dropWhile P xs \<noteq> [] \<Longrightarrow> last (dropWhile P xs) = last xs"
  by (induction xs) (auto split: if_splits)

lemma dropWhile_trimmed_end:
  assumes "xs = [] \<or> \<not> P (hd xs)"
  shows "dropWhile P (rev (dropWhile P (rev xs))) = rev (dropWhile P (rev xs))"
proof (cases "dropWhile P (rev xs) = []")
  case True
  show ?thesis by (simp only: True rev.simps dropWhile.simps)
next
  case False
  then have "xs \<noteq> []" by auto
  with assms have "\<not> P (hd xs)" by simp
  moreover from False have "hd (rev (dropWhile P (rev xs))) = last (rev xs)"
    by (simp add: hd_rev last_dropWhile)
  moreover from \<open>xs \<noteq> []\<close> have "last (rev xs) = hd xs" by (simp add: last_rev)
  ultimately have "\<not> P (hd (rev (dropWhile P (rev xs))))" by simp
  then show ?thesis by (simp add: dropWhile_eq_self_iff)
qed

lemma trim_idem: "trim (trim s) = trim s"
proof -
  let ?t = "dropWhile isWhiteSpace s"
  have "?t = [] \<or> \<not> isWhiteSpace (hd ?t)"
    using hd_dropWhile [of isWhiteSpace s] by blast
  then have "dropWhile isWhiteSpace (trim s) = trim s"
    unfolding trim_def by (rule dropWhile_trimmed_end)
  then show ?thesis
    by (simp add: trim_def)
qed

lemma nameIsUnique_cong:
  "lc (trim u) = lc (trim w) \<Longrightarrow>
     nameIsUnique lc balloonProp existingNames u = nameIsUnique lc balloonProp existingNames w"
  by (simp add: nameIsUnique_def)

lemma nameIsUnique_own:
  "lc (trim name) = lc (vehicle_name b) \<Longrightarrow> nameIsUnique lc (Some b) existingNames name"
  by (simp add: nameIsUnique_def)

lemma nameIsUnique_other:
  assumes "\<not> (\<exists>b. balloonProp = Some b \<and> lc (trim name) = lc (vehicle_name b))"
  shows "nameIsUnique lc balloonProp (Some names) name
           = (\<forall>e \<in> set names. lc e \<noteq> lc (trim name))"
  using assms by (auto simp: nameIsUnique_def Let_def list_ex_iff split: option.splits)

lemma nameIsUnique_no_list: "nameIsUnique lc balloonProp None name"
  by (simp add: nameIsUnique_def)

text \<open>
  Claim C10, as amended. \<open>nameIsUnique\<close> depends on the candidate only through its
  trimmed, lowercased form. It accepts the candidate when that form equals the lowercased
  name of the balloon being edited, which is not trimmed: so it accepts the balloon's own
  current name whenever that name is stored without white space around it, as every name
  is that this dialog has stored. Any other candidate is accepted exactly when no entry
  of \<open>existingNames\<close>, lowercased, equals its trimmed, lowercased form, and rejected when
  one does. Without an \<open>existingNames\<close> list every candidate is accepted.
\<close>

theorem nameIsUnique_decides:
  "(lc (trim u) = lc (trim w) \<longrightarrow>
      nameIsUnique lc balloonProp existingNames u = nameIsUnique lc balloonProp existingNames w) \<and>
   (lc (trim name) = lc (vehicle_name b) \<longrightarrow> nameIsUnique lc (Some b) existingNames name) \<and>
   (trim (vehicle_name b) = vehicle_name b \<longrightarrow>
      nameIsUnique lc (Some b) existingNames (vehicle_name b)) \<and>
   nameIsUnique lc (Some (b\<lparr>vehicle_name := trim s\<rparr>)) existingNames (trim s) \<and>
   (\<not> (\<exists>b. balloonProp = Some b \<and> lc (trim name) = lc (vehicle_name b)) \<longrightarrow>
      nameIsUnique lc balloonProp (Some names) name
        = (\<forall>e \<in> set names. lc e \<noteq> lc (trim name))) \<and>
   nameIsUnique lc balloonProp None name"
proof -
  have stored: "nameIsUnique lc (Some (b\<lparr>vehicle_name := trim s\<rparr>)) existingNames (trim s)"
    by (rule nameIsUnique_own) (simp add: trim_idem)
  have kept: "trim (vehicle_name b) = vehicle_name b \<longrightarrow>
      nameIsUnique lc (Some b) existingNames (vehicle_name b)"
    by (auto intro: nameIsUnique_own)
  from stored kept nameIsUnique_cong [of lc u w balloonProp existingNames]
    nameIsUnique_own [of lc name b existingNames]
    nameIsUnique_other [of balloonProp lc name names]
    nameIsUnique_no_list [of lc balloonProp name]
  show ?thesis by blast
qed

theorem nameIsUnique_witness:
  "nameIsUnique latin1ToLowerCase (Some sampleBalloon)
     (Some [utf16 ''D-OABC'', utf16 ''Hopper'', utf16 (CHR 0xE9 # ''clair'')]) (utf16 ''  d-oabc '') \<and>
   nameIsUnique latin1ToLowerCase (Some sampleBalloon)
     (Some [utf16 ''D-OABC'', utf16 ''Hopper'', utf16 (CHR 0xE9 # ''clair'')]) (vehicle_name sampleBalloon) \<and>
   \<not> nameIsUnique latin1ToLowerCase (Some sampleBalloon)
     (Some [utf16 ''D-OABC'', utf16 ''Hopper'', utf16 (CHR 0xE9 # ''clair'')]) (utf16 (CHR 0xA0 # ''HOPPER'')) \<and>
   \<not> nameIsUnique latin1ToLowerCase (Some sampleBalloon)
     (Some [utf16 ''D-OABC'', utf16 ''Hopper'', utf16 (CHR 0xE9 # ''clair'')]) (utf16 (CHR 0xC9 # ''CLAIR'')) \<and>
   nameIsUnique latin1ToLowerCase (Some sampleBalloon)
     (Some [utf16 ''D-OABC'', utf16 ''Hopper'', utf16 (CHR 0xE9 # ''clair'')]) (utf16 ''Cloud 9'') \<and>
   nameIsUnique latin1ToLowerCase None None (utf16 ''Hopper'')"
proof -
  let ?lc = latin1ToLowerCase
  let ?names = "[utf16 ''D-OABC'', utf16 ''Hopper'', utf16 (CHR 0xE9 # ''clair'')]"
  note defs = sampleBalloon_def utf16_def trim_def isWhiteSpace_def latin1ToLowerCase_def
  note th = nameIsUnique_decides [where lc = ?lc and b = sampleBalloon and names = ?names
      and existingNames = "Some ?names"]
  have own: "?lc (trim (utf16 ''  d-oabc '')) = ?lc (vehicle_name sampleBalloon)"
    by (simp add: defs)
  have kept: "trim (vehicle_name sampleBalloon) = vehicle_name sampleBalloon"
    by (simp add: defs)
  have other: "\<not> (\<exists>b. Some sampleBalloon = Some b \<and> ?lc (trim x) = ?lc (vehicle_name b))"
    if "?lc (trim x) \<noteq> ?lc (vehicle_name sampleBalloon)" for x
    using that by simp
  have o1: "?lc (trim (utf16 (CHR 0xA0 # ''HOPPER''))) \<noteq> ?lc (vehicle_name sampleBalloon)"
    and o2: "?lc (trim (utf16 (CHR 0xC9 # ''CLAIR''))) \<noteq> ?lc (vehicle_name sampleBalloon)"
    and o3: "?lc (trim (utf16 ''Cloud 9'')) \<noteq> ?lc (vehicle_name sampleBalloon)"
    by (simp_all add: defs)
  have taken1: "\<not> (\<forall>e \<in> set ?names. ?lc e \<noteq> ?lc (trim (utf16 (CHR 0xA0 # ''HOPPER''))))"
    and taken2: "\<not> (\<forall>e \<in> set ?names. ?lc e \<noteq> ?lc (trim (utf16 (CHR 0xC9 # ''CLAIR''))))"
    and free: "\<forall>e \<in> set ?names. ?lc e \<noteq> ?lc (trim (utf16 ''Cloud 9''))"
    by (simp_all add: defs)
  from th [where name = "utf16 ''  d-oabc ''"] own
  have 1: "nameIsUnique ?lc (Some sampleBalloon) (Some ?names) (utf16 ''  d-oabc '')" by blast
  from th kept
  have 2: "nameIsUnique ?lc (Some sampleBalloon) (Some ?names) (vehicle_name sampleBalloon)" by blast
  from th [where name = "utf16 (CHR 0xA0 # ''HOPPER'')" and balloonProp = "Some sampleBalloon"]
    other [OF o1] taken1
  have 3: "\<not> nameIsUnique ?lc (Some sampleBalloon) (Some ?names) (utf16 (CHR 0xA0 # ''HOPPER''))"
    by blast
  from th [where name = "utf16 (CHR 0xC9 # ''CLAIR'')" and balloonProp = "Some sampleBalloon"]
    other [OF o2] taken2
  have 4: "\<not> nameIsUnique ?lc (Some sampleBalloon) (Some ?names) (utf16 (CHR 0xC9 # ''CLAIR''))"
    by blast
  from th [where name = "utf16 ''Cloud 9''" and balloonProp = "Some sampleBalloon"]
    other [OF o3] free
  have 5: "nameIsUnique ?lc (Some sampleBalloon) (Some ?names) (utf16 ''Cloud 9'')"
    by blast
  from th [where balloonProp = None and name = "utf16 ''Hopper''"]
  have 6: "nameIsUnique ?lc None None (utf16 ''Hopper'')"
    by blast
  from 1 2 3 4 5 6 show ?thesis by blast
qed

text \<open>
  The claim as it was stated has the balloon's own current name always accepted. A
  balloon stored as \<open>Hopper\<close> with a space in front, next to another balloon \<open>Hopper\<close>,
  has its own name rejected: the candidate is trimmed, the stored name is not, so the
  own-name test fails and the other balloon's name matches.
\<close>

theorem nameIsUnique_counterexample:
  "vehicle_name paddedBalloon = utf16 '' Hopper'' \<and>
   \<not> nameIsUnique latin1ToLowerCase (Some paddedBalloon)
       (Some [utf16 ''Hopper'', utf16 '' Hopper'']) (vehicle_name paddedBalloon)"
  by (simp add: nameIsUnique_def paddedBalloon_def utf16_def trim_def isWhiteSpace_def
      latin1ToLowerCase_def)

section \<open>The Smart Fill dialog: the second-leg weight\<close>

text \<open>
  Claim C1, as amended. The dialog offers the input for \<open>wSecondLegFairness\<close> exactly
  when \<open>leg\<close> is not \<open>null\<close>, that is when First or Second is selected, and hides it
  when \<open>leg\<close> is \<open>null\<close>.
\<close>

theorem secondLegFairness_offered_iff:
  "SecondLegFairnessWeight \<in> set (advancedOptions options) \<longleftrightarrow> leg options \<noteq> None"
  by (simp add: advancedOptions_def)

text \<open>
  The claim as it was stated has the input offered exactly when \<open>leg\<close> is \<open>null\<close>. In
  the dialog's initial state \<open>leg\<close> is \<open>null\<close> and the input is not rendered; with the
  second leg selected it is.
\<close>

theorem secondLegFairness_counterexample:
  "leg initialOptions = None \<and> SecondLegFairnessWeight \<notin> set (advancedOptions initialOptions) \<and>
   leg (initialOptions\<lparr>leg := Some Second\<rparr>) \<noteq> None \<and>
   SecondLegFairnessWeight \<in> set (advancedOptions (initialOptions\<lparr>leg := Some Second\<rparr>))"
  by (simp add: advancedOptions_def initialOptions_def)

section \<open>The Smart Fill request: invalid configurations\<close>

lemma runSmartFill_invalid:
  "invalidConfiguration options instance \<Longrightarrow>
     runSmartFill search applyPlan options instance live = (Inl InvalidConfiguration, 0, live)"
  by (simp add: runSmartFill_def)

lemma runSmartFill_valid:
  "\<not> invalidConfiguration options instance \<Longrightarrow>
     fst (runSmartFill search applyPlan options instance live) \<noteq> Inl InvalidConfiguration"
  by (simp add: runSmartFill_def Let_def split: SearchOutcome.splits)

lemma invalidConfiguration_iff:
  "invalidConfiguration options instance \<longleftrightarrow>
     (\<exists>t. timeLimit options = Some t \<and> t \<le> 0) \<or>
     (\<exists>w \<in> set (weights options). \<exists>x. w = Some x \<and> x < 0) \<or>
     vehicleSlots instance = []"
  by (auto simp: invalidConfiguration_def nonPositive_def negative_def list_ex_iff split: option.splits)

text \<open>
  Claim C6. \<open>runSmartFill\<close> returns \<open>InvalidConfiguration\<close> exactly when the time limit
  is set and not positive, or some weight is set and negative, or the vehicle set is
  empty; and then no search iteration has run and the live state is the one it was given.
\<close>

theorem runSmartFill_invalidConfiguration_iff:
  "(fst (runSmartFill search applyPlan options instance live) = Inl InvalidConfiguration \<longleftrightarrow>
      (\<exists>t. timeLimit options = Some t \<and> t \<le> 0) \<or>
      (\<exists>w \<in> set (weights options). \<exists>x. w = Some x \<and> x < 0) \<or>
      vehicleSlots instance = []) \<and>
   (fst (runSmartFill search applyPlan options instance live) = Inl InvalidConfiguration \<longrightarrow>
      runSmartFill search applyPlan options instance live = (Inl InvalidConfiguration, 0, live))"
proof (cases "invalidConfiguration options instance")
  case True
  with runSmartFill_invalid [OF True, of search applyPlan live] show ?thesis
    by (simp add: invalidConfiguration_iff)
next
  case False
  with runSmartFill_valid [OF False, of search applyPlan live] show ?thesis
    by (simp add: invalidConfiguration_iff)
qed

theorem runSmartFill_witness:
  "runSmartFill seedSearch (\<lambda>plan live. plan @ live) (initialOptions\<lparr>timeLimit := Some (- 1)\<rparr>)
     sampleInstance [] = (Inl InvalidConfiguration, 0, []) \<and>
   fst (runSmartFill noSeedSearch (\<lambda>plan live. plan @ live) (initialOptions\<lparr>timeLimit := Some 2\<rparr>)
     sampleInstance []) \<noteq> Inl InvalidConfiguration"
proof -
  let ?ap = "\<lambda>(plan :: AssignmentPlan) live. plan @ live"
  have bad: "\<exists>t. timeLimit (initialOptions\<lparr>timeLimit := Some (- 1)\<rparr>) = Some t \<and> t \<le> 0"
    by simp
  have good: "\<not> ((\<exists>t. timeLimit (initialOptions\<lparr>timeLimit := Some 2\<rparr>) = Some t \<and> t \<le> 0) \<or>
      (\<exists>w \<in> set (weights (initialOptions\<lparr>timeLimit := Some 2\<rparr>)). \<exists>x. w = Some x \<and> x < 0) \<or>
      vehicleSlots sampleInstance = [])"
    by (simp add: weights_def initialOptions_def sampleInstance_def)
  from runSmartFill_invalidConfiguration_iff [of seedSearch ?ap "initialOptions\<lparr>timeLimit := Some (- 1)\<rparr>"
      sampleInstance "[]"] bad
  have 1: "runSmartFill seedSearch ?ap (initialOptions\<lparr>timeLimit := Some (- 1)\<rparr>) sampleInstance []
      = (Inl InvalidConfiguration, 0, [])" by blast
  from runSmartFill_invalidConfiguration_iff [of noSeedSearch ?ap "initialOptions\<lparr>timeLimit := Some 2\<rparr>"
      sampleInstance "[]"] good
  have 2: "fst (runSmartFill noSeedSearch ?ap (initialOptions\<lparr>timeLimit := Some 2\<rparr>) sampleInstance [])
      \<noteq> Inl InvalidConfiguration" by blast
  from 1 2 show ?thesis by blast
qed

end
